theory Spec2Isabelle
  imports Main
begin

section \<open>JavaScript values\<close>

text \<open>
  The expense form of \<^verbatim>\<open>src/components/expenses/ExpenseForm.js\<close> works on plain
  JavaScript data: the Formik values, the Formik error map and the payload handed to the
  submit callback. They are embedded as one datatype of values. An object is the list of
  its own properties in insertion order; a lookup takes the first entry of a key, as an
  object holds every key once. Numbers are the integers the form carries (identifiers,
  amounts in cents). There are no function values: a call of \<^verbatim>\<open>map\<close> on a value
  that has no such function is the \<^verbatim>\<open>TypeError\<close> JavaScript raises.
\<close>

datatype jsval =
    JUndefined
  | JNull
  | JBool bool
  | JNum int
  | JStr string
  | JArr "jsval list"
  | JObj "(string \<times> jsval) list"

type_synonym fields = "(string \<times> jsval) list"

text \<open>
  \<^verbatim>\<open>TypeError\<close> is the exception of a property read on \<^verbatim>\<open>null\<close> or
  \<^verbatim>\<open>undefined\<close>, of a call of something that is not a function, and of the
  conversion to a primitive of an object that has no callable \<^verbatim>\<open>toString\<close>. The
  form raises no other exception.
\<close>

datatype error = TypeError

definition andThen :: "error + 'a \<Rightarrow> ('a \<Rightarrow> error + 'b) \<Rightarrow> error + 'b" where
  "andThen m f = (case m of Inl e \<Rightarrow> Inl e | Inr x \<Rightarrow> f x)"

fun nullish :: "jsval \<Rightarrow> bool" where
  "nullish JUndefined = True"
| "nullish JNull = True"
| "nullish _ = False"

text \<open>JavaScript truthiness: what \<^verbatim>\<open>if (v)\<close>, \<^verbatim>\<open>v ? a : b\<close>, \<^verbatim>\<open>!v\<close>,
  \<^verbatim>\<open>&&\<close> and \<^verbatim>\<open>||\<close> test.\<close>

fun truthy :: "jsval \<Rightarrow> bool" where
  "truthy JUndefined = False"
| "truthy JNull = False"
| "truthy (JBool b) = b"
| "truthy (JNum n) = (n \<noteq> 0)"
| "truthy (JStr s) = (s \<noteq> [])"
| "truthy (JArr _) = True"
| "truthy (JObj _) = True"

text \<open>\<^verbatim>\<open>a && b\<close> and \<^verbatim>\<open>a || b\<close> return one of their operands.\<close>

definition js_and :: "jsval \<Rightarrow> jsval \<Rightarrow> jsval" where
  "js_and a b = (if truthy a then b else a)"

definition js_or :: "jsval \<Rightarrow> jsval \<Rightarrow> jsval" where
  "js_or a b = (if truthy a then a else b)"

text \<open>
  \<^verbatim>\<open>o.k\<close> for an \<^verbatim>\<open>o\<close> that is not nullish, and for the property names this
  file reads with it (none of them is a built-in of strings, numbers or arrays;
  \<^verbatim>\<open>length\<close> has its own function below): the own property, or
  \<^verbatim>\<open>undefined\<close>.
\<close>

fun get :: "jsval \<Rightarrow> string \<Rightarrow> jsval" where
  "get (JObj fs) k = (case map_of fs k of Some v \<Rightarrow> v | None \<Rightarrow> JUndefined)"
| "get _ k = JUndefined"

text \<open>\<^verbatim>\<open>o.k\<close>, which throws on a nullish \<^verbatim>\<open>o\<close>, and \<^verbatim>\<open>o?.k\<close>, which does not.\<close>

definition readProp :: "jsval \<Rightarrow> string \<Rightarrow> error + jsval" where
  "readProp v k = (if nullish v then Inl TypeError else Inr (get v k))"

definition optProp :: "jsval \<Rightarrow> string \<Rightarrow> jsval" where
  "optProp v k = (if nullish v then JUndefined else get v k)"

text \<open>\<^verbatim>\<open>Object.keys(o)\<close>: the names of the own properties.\<close>

definition ownKeys :: "jsval \<Rightarrow> string list" where
  "ownKeys v = (case v of JObj fs \<Rightarrow> map fst fs | _ \<Rightarrow> [])"

text \<open>\<^verbatim>\<open>typeof v === 'string'\<close>.\<close>

fun isString :: "jsval \<Rightarrow> bool" where
  "isString (JStr _) = True"
| "isString _ = False"

text \<open>\<^verbatim>\<open>o[k] = v\<close> on the properties of an object: an existing key keeps its place.\<close>

fun setProp :: "string \<Rightarrow> jsval \<Rightarrow> fields \<Rightarrow> fields" where
  "setProp k v [] = [(k, v)]"
| "setProp k v (p # ps) = (if fst p = k then (k, v) # ps else p # setProp k v ps)"

subsection \<open>The lodash functions the form uses\<close>

text \<open>
  \<^verbatim>\<open>pick(object, keys)\<close>: a new object with those of the keys, in their order, that
  \<^verbatim>\<open>object\<close> has; the empty object for \<^verbatim>\<open>null\<close>, \<^verbatim>\<open>undefined\<close> and for a
  value without any of the keys.
\<close>

definition pickFields :: "fields \<Rightarrow> string list \<Rightarrow> fields" where
  "pickFields fs ks =
     concat (map (\<lambda>k. case map_of fs k of Some v \<Rightarrow> [(k, v)] | None \<Rightarrow> []) ks)"

fun pick :: "jsval \<Rightarrow> string list \<Rightarrow> jsval" where
  "pick (JObj fs) ks = JObj (pickFields fs ks)"
| "pick _ ks = JObj []"

text \<open>
  \<^verbatim>\<open>{...o}\<close> in an object literal: the own properties of an object. The form
  spreads the result of a \<^verbatim>\<open>pick\<close> only, which is an object.
\<close>

fun spread :: "jsval \<Rightarrow> fields" where
  "spread (JObj fs) = fs"
| "spread _ = []"

text \<open>
  \<^verbatim>\<open>isEmpty(value)\<close>: true for \<^verbatim>\<open>null\<close> and \<^verbatim>\<open>undefined\<close>, for a string or
  array of length 0, for an object without own properties, and for every number and
  boolean.
\<close>

fun isEmpty :: "jsval \<Rightarrow> bool" where
  "isEmpty JUndefined = True"
| "isEmpty JNull = True"
| "isEmpty (JBool _) = True"
| "isEmpty (JNum _) = True"
| "isEmpty (JStr s) = (s = [])"
| "isEmpty (JArr xs) = (xs = [])"
| "isEmpty (JObj fs) = (fs = [])"

subsection \<open>Arrays\<close>

text \<open>A callback applied to every element in order; the first exception ends the loop.\<close>

fun mapE :: "('a \<Rightarrow> error + 'b) \<Rightarrow> 'a list \<Rightarrow> error + 'b list" where
  "mapE f [] = Inr []"
| "mapE f (x # xs) = andThen (f x) (\<lambda>y. andThen (mapE f xs) (\<lambda>ys. Inr (y # ys)))"

text \<open>
  \<^verbatim>\<open>arr.map(f)\<close>: on \<^verbatim>\<open>null\<close> and \<^verbatim>\<open>undefined\<close> the read of \<^verbatim>\<open>map\<close> throws,
  on any other value that is not an array \<^verbatim>\<open>map\<close> is not a function.
\<close>

fun arrayMap :: "(jsval \<Rightarrow> error + jsval) \<Rightarrow> jsval \<Rightarrow> error + jsval" where
  "arrayMap f (JArr xs) = andThen (mapE f xs) (\<lambda>ys. Inr (JArr ys))"
| "arrayMap f _ = Inl TypeError"

text \<open>\<^verbatim>\<open>arr?.map(f)\<close>.\<close>

definition optArrayMap :: "(jsval \<Rightarrow> error + jsval) \<Rightarrow> jsval \<Rightarrow> error + jsval" where
  "optArrayMap f v = (if nullish v then Inr JUndefined else arrayMap f v)"

text \<open>
  \<^verbatim>\<open>v > 0\<close>. A number is compared as it is; \<^verbatim>\<open>undefined\<close> converts to
  \<^verbatim>\<open>NaN\<close>, \<^verbatim>\<open>null\<close> to 0, a boolean to 0 or 1. An object converts through its
  \<^verbatim>\<open>toString\<close>: the inherited one gives a text that is no number (\<^verbatim>\<open>NaN\<close>), and
  an own property of that name, which is not callable here, leaves no conversion and
  throws. A string or an array converts by parsing its text as a floating-point literal
  (\<^verbatim>\<open>'12' > 0\<close>, \<^verbatim>\<open>['3'] > 0\<close>, \<^verbatim>\<open>'ab'\<close> is \<^verbatim>\<open>NaN\<close>). That conversion
  is not embedded: the parameter \<^verbatim>\<open>toNumberPositive\<close> stands for it and gives, for a
  string or an array, the outcome of the comparison.
\<close>

fun greaterThanZero :: "(jsval \<Rightarrow> error + bool) \<Rightarrow> jsval \<Rightarrow> error + bool" where
  "greaterThanZero toNumberPositive JUndefined = Inr False"
| "greaterThanZero toNumberPositive JNull = Inr False"
| "greaterThanZero toNumberPositive (JBool b) = Inr b"
| "greaterThanZero toNumberPositive (JNum n) = Inr (0 < n)"
| "greaterThanZero toNumberPositive (JStr s) = toNumberPositive (JStr s)"
| "greaterThanZero toNumberPositive (JArr xs) = toNumberPositive (JArr xs)"
| "greaterThanZero toNumberPositive (JObj fs) =
     (if map_of fs ''toString'' = None then Inr False else Inl TypeError)"

text \<open>
  \<^verbatim>\<open>v.length > 0\<close>. The read of \<^verbatim>\<open>length\<close> throws on \<^verbatim>\<open>null\<close> and
  \<^verbatim>\<open>undefined\<close>. An array and a string have their length, which is positive when
  they are not empty; a number and a boolean have none (\<^verbatim>\<open>undefined > 0\<close> is
  false); an object has the own property of that name, if any.
\<close>

fun lengthPositive :: "(jsval \<Rightarrow> error + bool) \<Rightarrow> jsval \<Rightarrow> error + bool" where
  "lengthPositive toNumberPositive JUndefined = Inl TypeError"
| "lengthPositive toNumberPositive JNull = Inl TypeError"
| "lengthPositive toNumberPositive (JArr xs) = Inr (xs \<noteq> [])"
| "lengthPositive toNumberPositive (JStr s) = Inr (s \<noteq> [])"
| "lengthPositive toNumberPositive (JBool b) = Inr False"
| "lengthPositive toNumberPositive (JNum n) = Inr False"
| "lengthPositive toNumberPositive (JObj fs) =
     greaterThanZero toNumberPositive (get (JObj fs) ''length'')"

section \<open>Constants of the form\<close>

text \<open>
  Modelled from the spec: the expense type constants of
  \<^verbatim>\<open>lib/constants/expenseTypes\<close>, which is not among the sources. The spec writes
  them \<^verbatim>\<open>INVOICE\<close>, \<^verbatim>\<open>RECEIPT\<close> and \<^verbatim>\<open>FUNDING_REQUEST\<close>; the form compares
  them with \<^verbatim>\<open>===\<close>.
\<close>

definition INVOICE :: jsval where
  "INVOICE = JStr ''INVOICE''"

definition RECEIPT :: jsval where
  "RECEIPT = JStr ''RECEIPT''"

definition FUNDING_REQUEST :: jsval where
  "FUNDING_REQUEST = JStr ''FUNDING_REQUEST''"

section \<open>The submission sanitizer\<close>

text \<open>The callback of \<^verbatim>\<open>expenseData.items.map\<close> (lines 116 to 124).\<close>

definition prepareItem :: "bool \<Rightarrow> bool \<Rightarrow> jsval \<Rightarrow> error + jsval" where
  "prepareItem isInvoice isFundingRequest item =
     andThen (readProp item ''__isNew'') (\<lambda>isNew.
       Inr (pick item
         ((if truthy isNew then [] else [''id'']) @
          (if isInvoice \<or> isFundingRequest then [] else [''url'']) @
          [''description'', ''incurredAt'', ''amount''])))"

text \<open>The callback of \<^verbatim>\<open>expenseData.attachedFiles?.map\<close> (line 114).\<close>

definition prepareFile :: "jsval \<Rightarrow> error + jsval" where
  "prepareFile file = Inr (pick file [''id'', ''url''])"

text \<open>
  Lines 102 and 105 to 108: the payee of the payload, from \<^verbatim>\<open>expenseData.payee\<close>.
  The collective picker gives a new profile a numeric identifier, which goes under
  \<^verbatim>\<open>legacyId\<close>.
\<close>

definition preparePayee :: "jsval \<Rightarrow> error + jsval" where
  "preparePayee payee0 =
     (let payeeIdField = (if isString (optProp payee0 ''id'') then ''id'' else ''legacyId'')
      in if truthy (js_or (optProp payee0 ''isNewUser'') (optProp payee0 ''isInvite''))
         then Inr (pick payee0 [''name'', ''email'', ''organization'', ''newsletterOptIn''])
         else andThen (readProp payee0 ''id'') (\<lambda>payeeId. Inr (JObj [(payeeIdField, payeeId)])))"

text \<open>
  \<^verbatim>\<open>prepareExpenseForSubmit\<close> (lines 100 to 126). Its first statement reads
  \<^verbatim>\<open>expenseData.payee\<close>, so a nullish argument throws there; after that every
  \<^verbatim>\<open>expenseData.k\<close> is a plain read. The fields of the result are in the order of
  the object literal: the spread of the first \<^verbatim>\<open>pick\<close>, then \<^verbatim>\<open>payee\<close>,
  \<^verbatim>\<open>payoutMethod\<close>, \<^verbatim>\<open>payeeLocation\<close>, \<^verbatim>\<open>attachedFiles\<close>, \<^verbatim>\<open>items\<close>.
\<close>

definition topLevelKeys :: "string list" where
  "topLevelKeys =
     [''id'', ''description'', ''longDescription'', ''type'', ''privateMessage'',
      ''invoiceInfo'', ''tags'']"

definition prepareExpenseForSubmit :: "jsval \<Rightarrow> error + jsval" where
  "prepareExpenseForSubmit expenseData =
     (if nullish expenseData then Inl TypeError
      else
        let isInvoice = (get expenseData ''type'' = INVOICE);
            isFundingRequest = (get expenseData ''type'' = FUNDING_REQUEST)
        in
        andThen (preparePayee (get expenseData ''payee'')) (\<lambda>payee.
        andThen
          (if isInvoice then optArrayMap prepareFile (get expenseData ''attachedFiles'')
           else Inr (JArr []))
          (\<lambda>attachedFiles.
        andThen
          (arrayMap (prepareItem isInvoice isFundingRequest) (get expenseData ''items''))
          (\<lambda>items.
        Inr (JObj
          (spread (pick expenseData topLevelKeys) @
           [(''payee'', payee),
            (''payoutMethod'',
               pick (get expenseData ''payoutMethod'')
                 [''id'', ''name'', ''data'', ''isSaved'', ''type'']),
            (''payeeLocation'',
               if isInvoice
               then pick (get expenseData ''payeeLocation'') [''address'', ''country'']
               else JNull),
            (''attachedFiles'', attachedFiles),
            (''items'', items)]))))))"

section \<open>The validator\<close>

text \<open>
  \<^verbatim>\<open>get(object, path)\<close> of lodash, the path split at its dots: \<^verbatim>\<open>undefined\<close> as
  soon as a value on the way is nullish.
\<close>

fun getPath :: "jsval \<Rightarrow> string list \<Rightarrow> jsval" where
  "getPath v [] = v"
| "getPath v (k # ks) = (if nullish v then JUndefined else getPath (get v k) ks)"

text \<open>
  \<^verbatim>\<open>set(object, path, value)\<close> of lodash on the properties of an object: a value on
  the way that is not an object is replaced by a new object.
\<close>

fun setPath :: "string list \<Rightarrow> jsval \<Rightarrow> fields \<Rightarrow> fields" where
  "setPath [] v fs = fs"
| "setPath [k] v fs = setProp k v fs"
| "setPath (k # ks) v fs =
     setProp k
       (JObj (setPath ks v (case map_of fs k of Some (JObj sub) \<Rightarrow> sub | _ \<Rightarrow> []))) fs"

text \<open>
  Modelled from the spec: \<^verbatim>\<open>requireFields\<close> of \<^verbatim>\<open>lib/form-utils\<close>, which is not
  among the sources. The spec has the validator return an error map in which "only
  present keys indicate errors", and has a required field be "non-empty": a field is in
  error when its value is absent (\<^verbatim>\<open>undefined\<close>), \<^verbatim>\<open>null\<close> or the empty string.
  The spec does not say what the error of a field is; it is the marker
  \<^verbatim>\<open>requiredError\<close> here. A field is named by a path, \<^verbatim>\<open>'payee.name'\<close> in the
  source, and the error map is nested along the path, as the form reads it
  (\<^verbatim>\<open>errors.payoutMethod?.data?.currency\<close>).
\<close>

fun isBlank :: "jsval \<Rightarrow> bool" where
  "isBlank JUndefined = True"
| "isBlank JNull = True"
| "isBlank (JStr s) = (s = [])"
| "isBlank _ = False"

definition requiredError :: jsval where
  "requiredError = JStr ''FORM_FIELD_REQUIRED''"

definition requireFields :: "jsval \<Rightarrow> string list list \<Rightarrow> fields" where
  "requireFields obj paths =
     fold (\<lambda>path errors.
             if isBlank (getPath obj path) then setPath path requiredError errors else errors)
       paths []"

text \<open>The error map has an error for the field of a path.\<close>

definition hasError :: "jsval \<Rightarrow> string list \<Rightarrow> bool" where
  "hasError errors path = (getPath errors path \<noteq> JUndefined)"

text \<open>\<^verbatim>\<open>Object.assign(target, source)\<close> on the properties of two objects.\<close>

definition assign :: "fields \<Rightarrow> fields \<Rightarrow> fields" where
  "assign target source = fold (\<lambda>p acc. setProp (fst p) (snd p) acc) source target"

text \<open>
  \<^verbatim>\<open>validate\<close> (lines 131 to 160). The two collaborators \<^verbatim>\<open>validateExpenseItem\<close>
  (of \<^verbatim>\<open>ExpenseItemForm\<close>) and \<^verbatim>\<open>validatePayoutMethod\<close> (of
  \<^verbatim>\<open>PayoutMethodForm\<close>) are parameters: each returns an error map.
  \<^verbatim>\<open>toNumberPositive\<close> is the parameter of \<^verbatim>\<open>expense.items.length > 0\<close>. The test
  \<^verbatim>\<open>expense.payee?.isInvite\<close> reads \<^verbatim>\<open>expense.payee\<close>, which throws on a
  nullish \<^verbatim>\<open>expense\<close>; where it passes, \<^verbatim>\<open>expense.payee\<close> is not nullish.
\<close>

definition validate ::
  "(jsval \<Rightarrow> error + bool) \<Rightarrow> (jsval \<Rightarrow> jsval \<Rightarrow> jsval) \<Rightarrow> (jsval \<Rightarrow> jsval) \<Rightarrow> jsval
     \<Rightarrow> error + jsval" where
  "validate toNumberPositive validateExpenseItem validatePayoutMethod expense =
     (if nullish expense then Inl TypeError
      else if truthy (optProp (get expense ''payee'') ''isInvite'') then
        andThen (readProp (get expense ''payee'') ''id'') (\<lambda>payeeId.
          Inr (JObj
            (if truthy payeeId
             then requireFields expense [[''description''], [''payee''], [''payee'', ''id'']]
             else requireFields expense
                    [[''description''], [''payee''], [''payee'', ''name''],
                     [''payee'', ''email'']])))
      else
        let errors0 =
              requireFields expense
                [[''description''], [''payee''], [''payoutMethod''], [''currency'']]
        in
        andThen (lengthPositive toNumberPositive (get expense ''items'')) (\<lambda>hasItems.
        andThen
          (if hasItems then
             andThen
               (arrayMap (\<lambda>item. Inr (validateExpenseItem expense item)) (get expense ''items''))
               (\<lambda>itemsErrors.
                  let hasErrors =
                        (case itemsErrors of
                           JArr es \<Rightarrow> list_ex (\<lambda>errors. \<not> isEmpty errors) es
                         | _ \<Rightarrow> False)
                  in Inr (if hasErrors then setProp ''items'' itemsErrors errors0 else errors0))
           else Inr errors0)
          (\<lambda>errors1.
        let errors2 =
              (if truthy (get expense ''payoutMethod'') then
                 let payoutMethodErrors = validatePayoutMethod (get expense ''payoutMethod'')
                 in if \<not> isEmpty payoutMethodErrors
                    then setProp ''payoutMethod'' payoutMethodErrors errors1
                    else errors1
               else errors1);
            errors3 =
              (if get expense ''type'' = INVOICE then
                 assign errors2
                   (requireFields expense
                      [[''payeeLocation'', ''country''], [''payeeLocation'', ''address'']])
               else errors2)
        in Inr (JObj errors3))))"

section \<open>The step controller\<close>

text \<open>
  \<^verbatim>\<open>ExpenseFormBody\<close> (lines 176 to 537) keeps the step in a React state and reads
  Formik's \<^verbatim>\<open>values\<close> and \<^verbatim>\<open>errors\<close>, which are objects. The state of the form is
  these three; \<^verbatim>\<open>isDraft\<close> is a prop of the component.
\<close>

datatype STEPS = PAYEE | EXPENSE

record formState =
  formValues :: fields
  formErrors :: fields
  step :: STEPS

text \<open>
  \<^verbatim>\<open>omit(errors, 'payoutMethod.data.currency')\<close> of lodash: a property of that very
  name is removed if there is one, else the property at the end of the path.
\<close>

fun unsetPath :: "string list \<Rightarrow> fields \<Rightarrow> fields" where
  "unsetPath [] fs = fs"
| "unsetPath [k] fs = filter (\<lambda>p. fst p \<noteq> k) fs"
| "unsetPath (k # ks) fs =
     map (\<lambda>p. if fst p = k
              then (case snd p of JObj sub \<Rightarrow> (k, JObj (unsetPath ks sub)) | _ \<Rightarrow> p)
              else p) fs"

definition omitCurrencyError :: "fields \<Rightarrow> fields" where
  "omitCurrencyError errs =
     (if map_of errs ''payoutMethod.data.currency'' \<noteq> None
      then filter (\<lambda>p. fst p \<noteq> ''payoutMethod.data.currency'') errs
      else unsetPath [''payoutMethod'', ''data'', ''currency''] errs)"

text \<open>
  Lines 192 to 200. \<^verbatim>\<open>flattenObjectDeep\<close> of \<^verbatim>\<open>lib/utils\<close> is not among the
  sources and is a parameter; \<^verbatim>\<open>toNumberPositive\<close> is the parameter of
  \<^verbatim>\<open>values.items.length > 0\<close>. The conjunctions have the value JavaScript gives
  them, one of their operands; \<^verbatim>\<open>values.items.length\<close> is read only when the
  operands before it are truthy.
\<close>

definition hasBaseFormFieldsCompleted :: "fields \<Rightarrow> jsval" where
  "hasBaseFormFieldsCompleted vals =
     js_and (get (JObj vals) ''type'') (get (JObj vals) ''description'')"

definition isInvite :: "fields \<Rightarrow> jsval" where
  "isInvite vals = optProp (get (JObj vals) ''payee'') ''isInvite''"

definition stepOneCompleted :: "(jsval \<Rightarrow> jsval) \<Rightarrow> fields \<Rightarrow> fields \<Rightarrow> jsval" where
  "stepOneCompleted flattenObjectDeep vals errs =
     js_and
       (js_and (get (JObj vals) ''payoutMethod'')
          (JBool (isEmpty (flattenObjectDeep (JObj (omitCurrencyError errs))))))
       (if get (JObj vals) ''type'' = RECEIPT then JBool True
        else js_and (optProp (get (JObj vals) ''payeeLocation'') ''country'')
               (optProp (get (JObj vals) ''payeeLocation'') ''address''))"

definition stepTwoCompleted ::
  "(jsval \<Rightarrow> error + bool) \<Rightarrow> (jsval \<Rightarrow> jsval) \<Rightarrow> fields \<Rightarrow> fields \<Rightarrow> error + jsval" where
  "stepTwoCompleted toNumberPositive flattenObjectDeep vals errs =
     (if truthy (isInvite vals) then Inr (JBool True)
      else
        let firstTwo =
              js_and (stepOneCompleted flattenObjectDeep vals errs)
                (hasBaseFormFieldsCompleted vals)
        in if truthy firstTwo
           then andThen (lengthPositive toNumberPositive (get (JObj vals) ''items''))
                  (\<lambda>b. Inr (JBool b))
           else Inr firstTwo)"

text \<open>Line 202: the initial value of the step state.\<close>

definition initialStep :: "(jsval \<Rightarrow> jsval) \<Rightarrow> fields \<Rightarrow> fields \<Rightarrow> STEPS" where
  "initialStep flattenObjectDeep vals errs =
     (if truthy (stepOneCompleted flattenObjectDeep vals errs) then EXPENSE else PAYEE)"

text \<open>
  Lines 231 to 237: the effect that runs when \<^verbatim>\<open>values.type\<close> has changed.
  \<^verbatim>\<open>formik.setFieldValue('payee', null)\<close> is the assignment to the values; the
  validation Formik may run after it is not part of the model.
\<close>

definition typeChanged :: "bool \<Rightarrow> formState \<Rightarrow> formState" where
  "typeChanged isDraft s =
     (let s1 = s\<lparr>step := PAYEE\<rparr>
      in if \<not> isDraft \<and> truthy (isInvite (formValues s))
         then s1\<lparr>formValues := setProp ''payee'' JNull (formValues s1)\<rparr>
         else s1)"

text \<open>
  The step after the first render. React runs every effect once after the first render,
  in the order of the source, whether or not its dependencies have changed. The step
  starts at the value of line 202; of the effects, the one on \<^verbatim>\<open>values.payee\<close>
  (lines 226 to 228) and the one on \<^verbatim>\<open>values.type\<close> (lines 232 to 237) set it, in
  that order, both reading the values of the first render. What the effects do to
  Formik's values is not followed here: only the step is read.
\<close>

definition stepAfterMount :: "(jsval \<Rightarrow> jsval) \<Rightarrow> bool \<Rightarrow> fields \<Rightarrow> fields \<Rightarrow> STEPS" where
  "stepAfterMount flattenObjectDeep isDraft vals errs =
     (let s0 = \<lparr>formValues = vals, formErrors = errs,
                 step = initialStep flattenObjectDeep vals errs\<rparr>;
          s1 = (if \<not> isDraft \<and> truthy (isInvite vals) then s0\<lparr>step := EXPENSE\<rparr> else s0)
      in step (typeChanged isDraft s1))"

text \<open>
  Lines 311 to 318: the \<^verbatim>\<open>onNext\<close> handler given to \<^verbatim>\<open>ExpenseFormPayeeStep\<close>.
  \<^verbatim>\<open>setErrors\<close> replaces Formik's error map.
\<close>

definition payeeStepOnNext :: "(jsval \<Rightarrow> jsval) \<Rightarrow> formState \<Rightarrow> formState" where
  "payeeStepOnNext validatePayoutMethod s =
     (let validation = validatePayoutMethod (get (JObj (formValues s)) ''payoutMethod'')
      in if isEmpty validation then s\<lparr>step := EXPENSE\<rparr>
         else s\<lparr>formErrors := [(''payoutMethod'', validation)]\<rparr>)"

text \<open>
  Line 300: the \<^verbatim>\<open>onNext\<close> handler given to \<^verbatim>\<open>ExpenseFormPayeeSignUpStep\<close>.
\<close>

definition signUpStepOnNext :: "formState \<Rightarrow> formState" where
  "signUpStepOnNext s = s\<lparr>step := EXPENSE\<rparr>"

text \<open>
  Lines 293 to 320: the Next action of the payee step. A draft opened with no logged-in
  account shows the sign-up step, any other expense the payee step of a profile; while
  \<^verbatim>\<open>loading\<close> the step shows a placeholder and has no Next action.
  \<^verbatim>\<open>loggedInAccount\<close> is read for its truthiness only.
\<close>

definition onNext :: "(jsval \<Rightarrow> jsval) \<Rightarrow> bool \<Rightarrow> bool \<Rightarrow> formState \<Rightarrow> formState" where
  "onNext validatePayoutMethod isDraft loggedInAccount s =
     (if isDraft \<and> \<not> loggedInAccount then signUpStepOnNext s
      else payeeStepOnNext validatePayoutMethod s)"

text \<open>Line 491: the \<^verbatim>\<open>disabled\<close> attribute of the submit button.\<close>

definition submitDisabled ::
  "(jsval \<Rightarrow> error + bool) \<Rightarrow> (jsval \<Rightarrow> jsval) \<Rightarrow> bool \<Rightarrow> fields \<Rightarrow> fields
     \<Rightarrow> error + bool" where
  "submitDisabled toNumberPositive flattenObjectDeep isValid vals errs =
     andThen (stepTwoCompleted toNumberPositive flattenObjectDeep vals errs)
       (\<lambda>completed. Inr (\<not> truthy completed \<or> \<not> isValid))"

section \<open>Properties of the sanitizer\<close>

lemma truthy_js_or: "truthy (js_or a b) = (truthy a \<or> truthy b)"
  by (simp add: js_or_def)

lemma pickFields_Nil: "pickFields fs [] = []"
  by (simp add: pickFields_def)

lemma pickFields_Cons:
  "pickFields fs (k # ks) =
     (case map_of fs k of Some v \<Rightarrow> [(k, v)] | None \<Rightarrow> []) @ pickFields fs ks"
  by (simp add: pickFields_def)

lemma map_of_pickFields:
  "map_of (pickFields fs ks) k = (if k \<in> set ks then map_of fs k else None)"
  by (induction ks) (auto simp: pickFields_Nil pickFields_Cons map_add_def split: option.splits)

lemma keys_pickFields: "fst ` set (pickFields fs ks) \<subseteq> set ks"
  by (induction ks) (auto simp: pickFields_Nil pickFields_Cons split: option.splits)

lemma pickFields_cong:
  "(\<And>k. k \<in> set ks \<Longrightarrow> map_of fs k = map_of gs k) \<Longrightarrow> pickFields fs ks = pickFields gs ks"
  by (induction ks) (auto simp: pickFields_Nil pickFields_Cons)

lemma pickFields_pickFields:
  "pickFields (pickFields fs ks) ks' = pickFields fs (filter (\<lambda>k. k \<in> set ks) ks')"
  by (induction ks') (auto simp: pickFields_Nil pickFields_Cons map_of_pickFields)

lemma pickFields_idem: "pickFields (pickFields fs ks) ks = pickFields fs ks"
  by (simp add: pickFields_pickFields)

lemma pickFields_empty: "pickFields [] ks = []"
  by (induction ks) (simp_all add: pickFields_Nil pickFields_Cons)

lemma pick_pick: "pick (pick v ks) ks' = pick v (filter (\<lambda>k. k \<in> set ks) ks')"
  by (cases v) (simp_all add: pickFields_pickFields pickFields_empty)

lemma get_pick: "get (pick v ks) k = (if k \<in> set ks then get v k else JUndefined)"
  by (cases v) (simp_all add: map_of_pickFields)

lemma nullish_pick: "\<not> nullish (pick v ks)"
  by (cases v) simp_all

lemma prepareItem_idem:
  assumes "prepareItem a b item = Inr out"
  shows "prepareItem a b out = Inr out"
  using assms
  by (auto simp: prepareItem_def readProp_def andThen_def get_pick pick_pick nullish_pick
        split: if_splits)

lemma prepareFile_idem:
  assumes "prepareFile file = Inr out"
  shows "prepareFile out = Inr out"
  using assms by (auto simp: prepareFile_def pick_pick)

lemma mapE_idem:
  assumes "\<And>x y. f x = Inr y \<Longrightarrow> f y = Inr y"
  shows "mapE f xs = Inr ys \<Longrightarrow> mapE f ys = Inr ys"
proof (induction xs arbitrary: ys)
  case Nil
  then show ?case by simp
next
  case (Cons x xs)
  then show ?case
    by (auto simp: andThen_def assms split: sum.splits)
qed

lemma arrayMap_Inr:
  "arrayMap f v = Inr w \<longleftrightarrow> (\<exists>xs ys. v = JArr xs \<and> w = JArr ys \<and> mapE f xs = Inr ys)"
  by (cases v) (auto simp: andThen_def split: sum.splits)

lemma arrayMap_idem:
  assumes "\<And>x y. f x = Inr y \<Longrightarrow> f y = Inr y" and "arrayMap f v = Inr w"
  shows "arrayMap f w = Inr w"
proof -
  from assms(2) obtain xs ys where "v = JArr xs" "w = JArr ys" "mapE f xs = Inr ys"
    by (auto simp: arrayMap_Inr)
  with mapE_idem [of f xs ys, OF assms(1)] show ?thesis
    by (simp add: andThen_def)
qed

lemma optArrayMap_idem:
  assumes "\<And>x y. f x = Inr y \<Longrightarrow> f y = Inr y" and "optArrayMap f v = Inr w"
  shows "optArrayMap f w = Inr w"
proof (cases "nullish v")
  case True
  with assms(2) show ?thesis by (simp add: optArrayMap_def)
next
  case False
  with assms(2) have a: "arrayMap f v = Inr w" by (simp add: optArrayMap_def)
  then have "\<not> nullish w" by (auto simp: arrayMap_Inr)
  with arrayMap_idem [of f v w, OF assms(1) a] show ?thesis by (simp add: optArrayMap_def)
qed

lemma map_of_append_rest:
  "map_of (fs @ gs) k = (case map_of fs k of Some v \<Rightarrow> Some v | None \<Rightarrow> map_of gs k)"
  by (simp add: map_add_def)

lemma pickFields_append_rest:
  assumes "\<And>k. k \<in> set ks \<Longrightarrow> map_of rest k = None"
  shows "pickFields (pickFields fs ks @ rest) ks = pickFields fs ks"
proof -
  have "pickFields (pickFields fs ks @ rest) ks = pickFields (pickFields fs ks) ks"
    by (rule pickFields_cong) (simp add: map_add_def assms split: option.splits)
  then show ?thesis by (simp add: pickFields_idem)
qed

lemma prepare_shape:
  "prepareExpenseForSubmit e = Inr payload \<longleftrightarrow>
     (\<exists>fs payee files items. e = JObj fs
        \<and> preparePayee (get e ''payee'') = Inr payee
        \<and> (if get e ''type'' = INVOICE then optArrayMap prepareFile (get e ''attachedFiles'')
            else Inr (JArr [])) = Inr files
        \<and> arrayMap (prepareItem (get e ''type'' = INVOICE) (get e ''type'' = FUNDING_REQUEST))
             (get e ''items'') = Inr items
        \<and> payload = JObj (pickFields fs topLevelKeys @
           [(''payee'', payee),
            (''payoutMethod'',
               pick (get e ''payoutMethod'') [''id'', ''name'', ''data'', ''isSaved'', ''type'']),
            (''payeeLocation'',
               if get e ''type'' = INVOICE
               then pick (get e ''payeeLocation'') [''address'', ''country'']
               else JNull),
            (''attachedFiles'', files),
            (''items'', items)]))"
proof (cases e)
  case (JObj fs)
  then show ?thesis
    by (simp add: prepareExpenseForSubmit_def Let_def andThen_def split: sum.splits) blast
qed (auto simp: prepareExpenseForSubmit_def Let_def andThen_def preparePayee_def readProp_def
       optProp_def js_or_def split: sum.splits)

lemma preparePayee_Inr:
  "preparePayee p = Inr P \<longleftrightarrow>
     (if truthy (optProp p ''isNewUser'') \<or> truthy (optProp p ''isInvite'')
      then P = pick p [''name'', ''email'', ''organization'', ''newsletterOptIn'']
      else \<not> nullish p
         \<and> P = JObj [(if isString (get p ''id'') then ''id'' else ''legacyId'', get p ''id'')])"
  by (auto simp: preparePayee_def Let_def truthy_js_or readProp_def andThen_def optProp_def)

lemma preparePayee_again:
  assumes "preparePayee p = Inr P"
  shows "preparePayee P
           = Inr (JObj [(if isString (get P ''id'') then ''id'' else ''legacyId'', get P ''id'')])"
  using assms
  by (auto simp: preparePayee_Inr optProp_def get_pick nullish_pick split: if_splits)

lemma pick_not_legacyId:
  "pick p [''name'', ''email'', ''organization'', ''newsletterOptIn''] \<noteq> JObj [(''legacyId'', v)]"
proof (cases p)
  case (JObj fs)
  have "''legacyId'' \<notin> fst ` set (pickFields fs [''name'', ''email'', ''organization'', ''newsletterOptIn''])"
    using keys_pickFields [of fs "[''name'', ''email'', ''organization'', ''newsletterOptIn'']"]
    by auto
  then have "pickFields fs [''name'', ''email'', ''organization'', ''newsletterOptIn''] \<noteq> [(''legacyId'', v)]"
    by auto
  with JObj show ?thesis by simp
qed simp_all

lemma preparePayee_fixed:
  assumes "preparePayee p = Inr P"
  shows "preparePayee P = Inr P \<longleftrightarrow>
           \<not> truthy (optProp p ''isNewUser'') \<and> \<not> truthy (optProp p ''isInvite'')
           \<and> (isString (get p ''id'') \<or> get p ''id'' = JUndefined)"
proof (cases "truthy (optProp p ''isNewUser'') \<or> truthy (optProp p ''isInvite'')")
  case True
  with assms have P: "P = pick p [''name'', ''email'', ''organization'', ''newsletterOptIn'']"
    by (simp add: preparePayee_Inr)
  then have "preparePayee P = Inr (JObj [(''legacyId'', JUndefined)])"
    using preparePayee_again [OF assms] by (simp add: get_pick)
  with P True show ?thesis
    using pick_not_legacyId [of p JUndefined] by auto
next
  case False
  with assms have P: "\<not> nullish p"
    "P = JObj [(if isString (get p ''id'') then ''id'' else ''legacyId'', get p ''id'')]"
    by (simp_all add: preparePayee_Inr)
  from preparePayee_again [OF assms] P False show ?thesis
    by (auto split: if_splits)
qed

lemma ownKeys_pick: "set (ownKeys (pick v ks)) \<subseteq> set ks"
  using keys_pickFields by (cases v) (auto simp: ownKeys_def)

lemma mapE_list_all2: "mapE f xs = Inr ys \<Longrightarrow> list_all2 (\<lambda>x y. f x = Inr y) xs ys"
  by (induction xs arbitrary: ys) (auto simp: andThen_def split: sum.splits)

lemma prepareItem_Inr:
  "prepareItem a b item = Inr out \<longleftrightarrow>
     \<not> nullish item
     \<and> out = pick item
         ((if truthy (get item ''__isNew'') then [] else [''id'']) @
          (if a \<or> b then [] else [''url'']) @ [''description'', ''incurredAt'', ''amount''])"
  by (auto simp: prepareItem_def readProp_def andThen_def)

text \<open>
  C9. For every expense record whose payee is \<^verbatim>\<open>null\<close> or \<^verbatim>\<open>undefined\<close> (or
  absent), \<^verbatim>\<open>prepareExpenseForSubmit\<close> does not return: the read of
  \<^verbatim>\<open>expenseData.payee.id\<close> in the branch of a payee that is neither a new user nor an
  invite throws a \<^verbatim>\<open>TypeError\<close>. A payee that is not nullish is a precondition of
  the sanitizer.
\<close>

theorem prepareExpenseForSubmit_nullish_payee:
  assumes "nullish (get expenseData ''payee'')"
  shows "prepareExpenseForSubmit expenseData = Inl TypeError"
  using assms
  by (simp add: prepareExpenseForSubmit_def preparePayee_def Let_def optProp_def readProp_def
        js_or_def andThen_def)

theorem prepareExpenseForSubmit_nullish_payee_witness:
  "nullish (get (JObj [(''type'', RECEIPT), (''payee'', JNull), (''items'', JArr [])]) ''payee'')
   \<and> prepareExpenseForSubmit
        (JObj [(''type'', RECEIPT), (''payee'', JNull), (''items'', JArr [])]) = Inl TypeError"
  using prepareExpenseForSubmit_nullish_payee
          [of "JObj [(''type'', RECEIPT), (''payee'', JNull), (''items'', JArr [])]"]
  by simp

text \<open>
  C5. For every expense record on which \<^verbatim>\<open>prepareExpenseForSubmit\<close> returns a
  payload: \<^verbatim>\<open>payeeLocation\<close> is the picked address and country when the type is
  \<^verbatim>\<open>INVOICE\<close> and \<^verbatim>\<open>null\<close> otherwise; \<^verbatim>\<open>payee\<close> is the inline-signup subset
  (name, email, organization, newsletterOptIn) when \<^verbatim>\<open>isNewUser\<close> or
  \<^verbatim>\<open>isInvite\<close> is set, and otherwise an object with the identifier alone, under
  \<^verbatim>\<open>id\<close> when it is a string and under \<^verbatim>\<open>legacyId\<close> when it is not; and the
  items of the payload are the items of the record, one for one, each with no key but
  \<^verbatim>\<open>id\<close>, \<^verbatim>\<open>url\<close>, \<^verbatim>\<open>description\<close>, \<^verbatim>\<open>incurredAt\<close> and \<^verbatim>\<open>amount\<close>
  (so without \<^verbatim>\<open>__isNew\<close>), without \<^verbatim>\<open>id\<close> when the item has \<^verbatim>\<open>__isNew\<close>
  set, without \<^verbatim>\<open>url\<close> when the type is \<^verbatim>\<open>INVOICE\<close> or
  \<^verbatim>\<open>FUNDING_REQUEST\<close>, and with the values of the record in the fields that are
  kept.
\<close>

theorem prepareExpenseForSubmit_payload:
  assumes "prepareExpenseForSubmit expenseData = Inr payload"
  shows "get payload ''payeeLocation''
           = (if get expenseData ''type'' = INVOICE
              then pick (get expenseData ''payeeLocation'') [''address'', ''country'']
              else JNull)
       \<and> get payload ''payee''
           = (if truthy (optProp (get expenseData ''payee'') ''isNewUser'')
                 \<or> truthy (optProp (get expenseData ''payee'') ''isInvite'')
              then pick (get expenseData ''payee'')
                     [''name'', ''email'', ''organization'', ''newsletterOptIn'']
              else JObj [(if isString (get (get expenseData ''payee'') ''id'')
                          then ''id'' else ''legacyId'',
                          get (get expenseData ''payee'') ''id'')])
       \<and> (\<exists>items out.
             get expenseData ''items'' = JArr items \<and> get payload ''items'' = JArr out
             \<and> list_all2
                 (\<lambda>item sent.
                    set (ownKeys sent)
                      \<subseteq> {''id'', ''url'', ''description'', ''incurredAt'', ''amount''}
                    \<and> (truthy (get item ''__isNew'') \<longrightarrow> ''id'' \<notin> set (ownKeys sent))
                    \<and> (get expenseData ''type'' = INVOICE
                          \<or> get expenseData ''type'' = FUNDING_REQUEST
                        \<longrightarrow> ''url'' \<notin> set (ownKeys sent))
                    \<and> (\<not> truthy (get item ''__isNew'') \<longrightarrow> get sent ''id'' = get item ''id'')
                    \<and> (get expenseData ''type'' \<noteq> INVOICE
                          \<and> get expenseData ''type'' \<noteq> FUNDING_REQUEST
                        \<longrightarrow> get sent ''url'' = get item ''url'')
                    \<and> get sent ''description'' = get item ''description''
                    \<and> get sent ''incurredAt'' = get item ''incurredAt''
                    \<and> get sent ''amount'' = get item ''amount'')
                 items out)"
proof -
  define inv where "inv = (get expenseData ''type'' = INVOICE)"
  define fr where "fr = (get expenseData ''type'' = FUNDING_REQUEST)"
  define location where "location =
    (if inv then pick (get expenseData ''payeeLocation'') [''address'', ''country''] else JNull)"
  from assms obtain fs payee payout files items where
    p: "preparePayee (get expenseData ''payee'') = Inr payee"
    and i: "arrayMap (prepareItem inv fr) (get expenseData ''items'') = Inr items"
    and r: "payload = JObj (pickFields fs topLevelKeys @
           [(''payee'', payee), (''payoutMethod'', payout), (''payeeLocation'', location),
            (''attachedFiles'', files), (''items'', items)])"
    unfolding prepare_shape inv_def fr_def location_def by blast
  have g: "get payload ''payee'' = payee" "get payload ''items'' = items"
    "get payload ''payeeLocation'' = location"
    by (simp_all add: r map_add_def map_of_pickFields topLevelKeys_def split: option.splits)
  from i obtain xs ys where xs: "get expenseData ''items'' = JArr xs" and ys: "items = JArr ys"
    and m: "mapE (prepareItem inv fr) xs = Inr ys"
    by (auto simp: arrayMap_Inr)
  have item: "set (ownKeys sent) \<subseteq> {''id'', ''url'', ''description'', ''incurredAt'', ''amount''}
       \<and> (truthy (get item ''__isNew'') \<longrightarrow> ''id'' \<notin> set (ownKeys sent))
       \<and> (inv \<or> fr \<longrightarrow> ''url'' \<notin> set (ownKeys sent))
       \<and> (\<not> truthy (get item ''__isNew'') \<longrightarrow> get sent ''id'' = get item ''id'')
       \<and> (\<not> inv \<and> \<not> fr \<longrightarrow> get sent ''url'' = get item ''url'')
       \<and> get sent ''description'' = get item ''description''
       \<and> get sent ''incurredAt'' = get item ''incurredAt''
       \<and> get sent ''amount'' = get item ''amount''"
    if "prepareItem inv fr item = Inr sent" for item sent
  proof -
    define ks where "ks = (if truthy (get item ''__isNew'') then [] else [''id'']) @
          (if inv \<or> fr then [] else [''url'']) @ [''description'', ''incurredAt'', ''amount'']"
    from that have s: "sent = pick item ks"
      by (simp add: prepareItem_Inr ks_def)
    have k: "set (ownKeys sent) \<subseteq> set ks"
      unfolding s by (rule ownKeys_pick)
    have "set ks \<subseteq> {''id'', ''url'', ''description'', ''incurredAt'', ''amount''}"
      by (simp add: ks_def)
    with k have c1:
      "set (ownKeys sent) \<subseteq> {''id'', ''url'', ''description'', ''incurredAt'', ''amount''}"
      by (rule subset_trans)
    have c2: "truthy (get item ''__isNew'') \<longrightarrow> ''id'' \<notin> set (ownKeys sent)"
    proof
      assume "truthy (get item ''__isNew'')"
      then have "''id'' \<notin> set ks" by (simp add: ks_def)
      with k show "''id'' \<notin> set (ownKeys sent)" by (rule contra_subsetD)
    qed
    have c3: "inv \<or> fr \<longrightarrow> ''url'' \<notin> set (ownKeys sent)"
    proof
      assume "inv \<or> fr"
      then have "''url'' \<notin> set ks" by (simp add: ks_def)
      with k show "''url'' \<notin> set (ownKeys sent)" by (rule contra_subsetD)
    qed
    have c4: "\<not> truthy (get item ''__isNew'') \<longrightarrow> get sent ''id'' = get item ''id''"
      by (simp add: s get_pick ks_def)
    have c5: "\<not> inv \<and> \<not> fr \<longrightarrow> get sent ''url'' = get item ''url''"
      by (simp add: s get_pick ks_def)
    have c6: "get sent ''description'' = get item ''description''"
      by (simp add: s get_pick ks_def)
    have c7: "get sent ''incurredAt'' = get item ''incurredAt''"
      by (simp add: s get_pick ks_def)
    have c8: "get sent ''amount'' = get item ''amount''"
      by (simp add: s get_pick ks_def)
    from c1 c2 c3 c4 c5 c6 c7 c8 show ?thesis
      by (intro conjI)
  qed
  have "list_all2 (\<lambda>item sent. prepareItem inv fr item = Inr sent) xs ys"
    using m by (rule mapE_list_all2)
  then have l: "list_all2
                 (\<lambda>item sent.
                    set (ownKeys sent)
                      \<subseteq> {''id'', ''url'', ''description'', ''incurredAt'', ''amount''}
                    \<and> (truthy (get item ''__isNew'') \<longrightarrow> ''id'' \<notin> set (ownKeys sent))
                    \<and> (inv \<or> fr \<longrightarrow> ''url'' \<notin> set (ownKeys sent))
                    \<and> (\<not> truthy (get item ''__isNew'') \<longrightarrow> get sent ''id'' = get item ''id'')
                    \<and> (\<not> inv \<and> \<not> fr \<longrightarrow> get sent ''url'' = get item ''url'')
                    \<and> get sent ''description'' = get item ''description''
                    \<and> get sent ''incurredAt'' = get item ''incurredAt''
                    \<and> get sent ''amount'' = get item ''amount'') xs ys"
    by (rule list_all2_mono) (rule item)
  have py: "payee = (if truthy (optProp (get expenseData ''payee'') ''isNewUser'')
                 \<or> truthy (optProp (get expenseData ''payee'') ''isInvite'')
              then pick (get expenseData ''payee'')
                     [''name'', ''email'', ''organization'', ''newsletterOptIn'']
              else JObj [(if isString (get (get expenseData ''payee'') ''id'')
                          then ''id'' else ''legacyId'',
                          get (get expenseData ''payee'') ''id'')])"
    using p by (auto simp: preparePayee_Inr)
  from l have l': "list_all2
                 (\<lambda>item sent.
                    set (ownKeys sent)
                      \<subseteq> {''id'', ''url'', ''description'', ''incurredAt'', ''amount''}
                    \<and> (truthy (get item ''__isNew'') \<longrightarrow> ''id'' \<notin> set (ownKeys sent))
                    \<and> (get expenseData ''type'' = INVOICE
                          \<or> get expenseData ''type'' = FUNDING_REQUEST
                        \<longrightarrow> ''url'' \<notin> set (ownKeys sent))
                    \<and> (\<not> truthy (get item ''__isNew'') \<longrightarrow> get sent ''id'' = get item ''id'')
                    \<and> (get expenseData ''type'' \<noteq> INVOICE
                          \<and> get expenseData ''type'' \<noteq> FUNDING_REQUEST
                        \<longrightarrow> get sent ''url'' = get item ''url'')
                    \<and> get sent ''description'' = get item ''description''
                    \<and> get sent ''incurredAt'' = get item ''incurredAt''
                    \<and> get sent ''amount'' = get item ''amount'') xs ys"
    unfolding inv_def fr_def .
  have loc: "get payload ''payeeLocation''
           = (if get expenseData ''type'' = INVOICE
              then pick (get expenseData ''payeeLocation'') [''address'', ''country'']
              else JNull)"
    unfolding g location_def inv_def ..
  have its: "get payload ''items'' = JArr ys"
    unfolding g ys ..
  show ?thesis
    apply (intro conjI)
      apply (rule loc)
     apply (simp only: g(1) py)
    apply (rule exI [of _ xs], rule exI [of _ ys])
    apply (intro conjI xs its l')
    done
qed

theorem prepareExpenseForSubmit_payload_witness:
  "prepareExpenseForSubmit
     (JObj [(''type'', INVOICE), (''payee'', JObj [(''id'', JStr ''p1''), (''name'', JStr ''Ann'')]),
            (''items'', JArr [JObj [(''__isNew'', JBool True), (''id'', JStr ''tmp-1''),
                                    (''description'', JStr ''x''), (''amount'', JNum 5),
                                    (''url'', JStr ''http://x'')]])])
     = Inr (JObj [(''type'', INVOICE), (''payee'', JObj [(''id'', JStr ''p1'')]),
                  (''payoutMethod'', JObj []), (''payeeLocation'', JObj []),
                  (''attachedFiles'', JUndefined),
                  (''items'', JArr [JObj [(''description'', JStr ''x''), (''amount'', JNum 5)]])])
   \<and> get (JObj [(''type'', INVOICE), (''payee'', JObj [(''id'', JStr ''p1'')]),
                  (''payoutMethod'', JObj []), (''payeeLocation'', JObj []),
                  (''attachedFiles'', JUndefined),
                  (''items'', JArr [JObj [(''description'', JStr ''x''), (''amount'', JNum 5)]])])
        ''payee'' = JObj [(''id'', JStr ''p1'')]
   \<and> truthy (get (JObj [(''__isNew'', JBool True), (''id'', JStr ''tmp-1''),
                        (''description'', JStr ''x''), (''amount'', JNum 5),
                        (''url'', JStr ''http://x'')]) ''__isNew'')
   \<and> ''id'' \<notin> set (ownKeys (JObj [(''description'', JStr ''x''), (''amount'', JNum 5)]))
   \<and> ''url'' \<notin> set (ownKeys (JObj [(''description'', JStr ''x''), (''amount'', JNum 5)]))"
proof -
  have eq: "prepareExpenseForSubmit
     (JObj [(''type'', INVOICE), (''payee'', JObj [(''id'', JStr ''p1''), (''name'', JStr ''Ann'')]),
            (''items'', JArr [JObj [(''__isNew'', JBool True), (''id'', JStr ''tmp-1''),
                                    (''description'', JStr ''x''), (''amount'', JNum 5),
                                    (''url'', JStr ''http://x'')]])])
     = Inr (JObj [(''type'', INVOICE), (''payee'', JObj [(''id'', JStr ''p1'')]),
                  (''payoutMethod'', JObj []), (''payeeLocation'', JObj []),
                  (''attachedFiles'', JUndefined),
                  (''items'', JArr [JObj [(''description'', JStr ''x''), (''amount'', JNum 5)]])])"
    by (simp add: prepareExpenseForSubmit_def preparePayee_def prepareItem_def optArrayMap_def
          optProp_def readProp_def js_or_def andThen_def pickFields_def topLevelKeys_def
          INVOICE_def)
  from prepareExpenseForSubmit_payload [OF eq] eq show ?thesis
    by (simp add: ownKeys_def)
qed

text \<open>
  C3, as stated, fails: the payload of an invited payee has lost the \<^verbatim>\<open>isInvite\<close>
  flag, so the sanitizer run on that payload takes the other branch and replaces the
  payee by \<^verbatim>\<open>{legacyId: undefined}\<close>.
\<close>

theorem prepareExpenseForSubmit_idempotent_counterexample:
  "prepareExpenseForSubmit
     (JObj [(''type'', RECEIPT), (''description'', JStr ''Talk''),
            (''payee'', JObj [(''isInvite'', JBool True), (''name'', JStr ''Ann''),
                              (''email'', JStr ''ann@example.org'')]),
            (''items'', JArr [])])
     = Inr (JObj [(''description'', JStr ''Talk''), (''type'', RECEIPT),
                  (''payee'', JObj [(''name'', JStr ''Ann''), (''email'', JStr ''ann@example.org'')]),
                  (''payoutMethod'', JObj []), (''payeeLocation'', JNull),
                  (''attachedFiles'', JArr []), (''items'', JArr [])])
   \<and> prepareExpenseForSubmit
       (JObj [(''description'', JStr ''Talk''), (''type'', RECEIPT),
              (''payee'', JObj [(''name'', JStr ''Ann''), (''email'', JStr ''ann@example.org'')]),
              (''payoutMethod'', JObj []), (''payeeLocation'', JNull),
              (''attachedFiles'', JArr []), (''items'', JArr [])])
     = Inr (JObj [(''description'', JStr ''Talk''), (''type'', RECEIPT),
                  (''payee'', JObj [(''legacyId'', JUndefined)]),
                  (''payoutMethod'', JObj []), (''payeeLocation'', JNull),
                  (''attachedFiles'', JArr []), (''items'', JArr [])])
   \<and> JObj [(''description'', JStr ''Talk''), (''type'', RECEIPT),
            (''payee'', JObj [(''legacyId'', JUndefined)]),
            (''payoutMethod'', JObj []), (''payeeLocation'', JNull),
            (''attachedFiles'', JArr []), (''items'', JArr [])]
     \<noteq> JObj [(''description'', JStr ''Talk''), (''type'', RECEIPT),
              (''payee'', JObj [(''name'', JStr ''Ann''), (''email'', JStr ''ann@example.org'')]),
              (''payoutMethod'', JObj []), (''payeeLocation'', JNull),
              (''attachedFiles'', JArr []), (''items'', JArr [])]"
  by (simp add: prepareExpenseForSubmit_def preparePayee_def optProp_def readProp_def js_or_def
        andThen_def pickFields_def topLevelKeys_def RECEIPT_def INVOICE_def FUNDING_REQUEST_def)

text \<open>
  C3, amended. For every expense record on which the sanitizer returns a payload, the
  sanitizer returns on that payload too, and it returns the same payload exactly when
  the payee of the record is a reference to a profile, neither \<^verbatim>\<open>isNewUser\<close> nor
  \<^verbatim>\<open>isInvite\<close> set, whose \<^verbatim>\<open>id\<close> is a string (or is \<^verbatim>\<open>undefined\<close>). On these
  records \<^verbatim>\<open>prepareExpenseForSubmit\<close> is idempotent.
\<close>

theorem prepareExpenseForSubmit_idempotent_iff:
  assumes "prepareExpenseForSubmit expenseData = Inr payload"
  shows "(\<exists>payload2. prepareExpenseForSubmit payload = Inr payload2)
       \<and> (prepareExpenseForSubmit payload = Inr payload \<longleftrightarrow>
            \<not> truthy (optProp (get expenseData ''payee'') ''isNewUser'')
            \<and> \<not> truthy (optProp (get expenseData ''payee'') ''isInvite'')
            \<and> (isString (get (get expenseData ''payee'') ''id'')
                 \<or> get (get expenseData ''payee'') ''id'' = JUndefined))"
proof -
  define inv where "inv = (get expenseData ''type'' = INVOICE)"
  define fr where "fr = (get expenseData ''type'' = FUNDING_REQUEST)"
  define payout where "payout =
    pick (get expenseData ''payoutMethod'') [''id'', ''name'', ''data'', ''isSaved'', ''type'']"
  define location where "location =
    (if inv then pick (get expenseData ''payeeLocation'') [''address'', ''country''] else JNull)"
  from assms obtain fs payee files items where
    e: "expenseData = JObj fs"
    and p: "preparePayee (get expenseData ''payee'') = Inr payee"
    and f: "(if inv then optArrayMap prepareFile (get expenseData ''attachedFiles'')
             else Inr (JArr [])) = Inr files"
    and i: "arrayMap (prepareItem inv fr) (get expenseData ''items'') = Inr items"
    and r: "payload = JObj (pickFields fs topLevelKeys @
           [(''payee'', payee), (''payoutMethod'', payout), (''payeeLocation'', location),
            (''attachedFiles'', files), (''items'', items)])"
    unfolding prepare_shape inv_def fr_def payout_def location_def by blast
  define out where "out = pickFields fs topLevelKeys @
           [(''payee'', payee), (''payoutMethod'', payout), (''payeeLocation'', location),
            (''attachedFiles'', files), (''items'', items)]"
  have r': "payload = JObj out"
    by (simp add: r out_def)
  have "get (JObj out) ''type'' = get expenseData ''type''"
    by (simp add: out_def e map_add_def map_of_pickFields topLevelKeys_def split: option.splits)
  then have ty: "(get (JObj out) ''type'' = INVOICE) = inv"
    "(get (JObj out) ''type'' = FUNDING_REQUEST) = fr"
    by (simp_all only: inv_def fr_def)
  have g: "get (JObj out) ''payee'' = payee" "get (JObj out) ''attachedFiles'' = files"
    "get (JObj out) ''items'' = items" "get (JObj out) ''payoutMethod'' = payout"
    "get (JObj out) ''payeeLocation'' = location"
    by (simp_all add: out_def map_add_def map_of_pickFields topLevelKeys_def
          split: option.splits)
  have i2: "arrayMap (prepareItem inv fr) items = Inr items"
    using arrayMap_idem [of "prepareItem inv fr", OF prepareItem_idem i] .
  have f2: "(if inv then optArrayMap prepareFile files else Inr (JArr [])) = Inr files"
  proof (cases inv)
    case True
    with f optArrayMap_idem [of prepareFile, OF prepareFile_idem] show ?thesis by simp
  next
    case False
    with f show ?thesis by auto
  qed
  have m2: "pick payout [''id'', ''name'', ''data'', ''isSaved'', ''type''] = payout"
    by (simp add: payout_def pick_pick)
  have l2: "(if inv then pick location [''address'', ''country''] else JNull) = location"
    by (simp add: location_def pick_pick)
  have top: "pickFields out topLevelKeys = pickFields fs topLevelKeys"
    unfolding out_def
    by (rule pickFields_append_rest) (auto simp: topLevelKeys_def)
  from preparePayee_again [OF p] obtain payee2 where p2: "preparePayee payee = Inr payee2"
    by blast
  have second: "prepareExpenseForSubmit payload =
     Inr (JObj (pickFields fs topLevelKeys @
           [(''payee'', payee2), (''payoutMethod'', payout), (''payeeLocation'', location),
            (''attachedFiles'', files), (''items'', items)]))"
  proof (cases inv)
    case True
    with i2 f2 l2 show ?thesis
      by (simp add: prepareExpenseForSubmit_def r' Let_def andThen_def ty g p2 m2 top
            del: get.simps)
  next
    case False
    with i2 f2 l2 show ?thesis
      by (simp add: prepareExpenseForSubmit_def r' Let_def andThen_def ty g p2 m2 top
            del: get.simps)
  qed
  have "prepareExpenseForSubmit payload = Inr payload \<longleftrightarrow> payee2 = payee"
    unfolding second by (simp add: r' out_def)
  also have "\<dots> \<longleftrightarrow> preparePayee payee = Inr payee"
    using p2 by auto
  finally show ?thesis
    using preparePayee_fixed [OF p] second by blast
qed

theorem prepareExpenseForSubmit_idempotent_iff_witness:
  "prepareExpenseForSubmit
     (JObj [(''type'', INVOICE), (''payee'', JObj [(''id'', JStr ''p1''), (''name'', JStr ''Ann'')]),
            (''currency'', JStr ''USD''),
            (''items'', JArr [JObj [(''__isNew'', JBool True), (''id'', JStr ''tmp-1''),
                                    (''description'', JStr ''x''), (''amount'', JNum 5),
                                    (''url'', JStr ''http://x'')]])])
     = Inr (JObj [(''type'', INVOICE), (''payee'', JObj [(''id'', JStr ''p1'')]),
                  (''payoutMethod'', JObj []), (''payeeLocation'', JObj []),
                  (''attachedFiles'', JUndefined),
                  (''items'', JArr [JObj [(''description'', JStr ''x''), (''amount'', JNum 5)]])])
   \<and> prepareExpenseForSubmit
       (JObj [(''type'', INVOICE), (''payee'', JObj [(''id'', JStr ''p1'')]),
              (''payoutMethod'', JObj []), (''payeeLocation'', JObj []),
              (''attachedFiles'', JUndefined),
              (''items'', JArr [JObj [(''description'', JStr ''x''), (''amount'', JNum 5)]])])
     = Inr (JObj [(''type'', INVOICE), (''payee'', JObj [(''id'', JStr ''p1'')]),
                  (''payoutMethod'', JObj []), (''payeeLocation'', JObj []),
                  (''attachedFiles'', JUndefined),
                  (''items'', JArr [JObj [(''description'', JStr ''x''), (''amount'', JNum 5)]])])"
proof -
  have eq: "prepareExpenseForSubmit
     (JObj [(''type'', INVOICE), (''payee'', JObj [(''id'', JStr ''p1''), (''name'', JStr ''Ann'')]),
            (''currency'', JStr ''USD''),
            (''items'', JArr [JObj [(''__isNew'', JBool True), (''id'', JStr ''tmp-1''),
                                    (''description'', JStr ''x''), (''amount'', JNum 5),
                                    (''url'', JStr ''http://x'')]])])
     = Inr (JObj [(''type'', INVOICE), (''payee'', JObj [(''id'', JStr ''p1'')]),
                  (''payoutMethod'', JObj []), (''payeeLocation'', JObj []),
                  (''attachedFiles'', JUndefined),
                  (''items'', JArr [JObj [(''description'', JStr ''x''), (''amount'', JNum 5)]])])"
    by (simp add: prepareExpenseForSubmit_def preparePayee_def prepareItem_def optArrayMap_def
          optProp_def readProp_def js_or_def andThen_def pickFields_def topLevelKeys_def
          INVOICE_def)
  from prepareExpenseForSubmit_idempotent_iff [OF eq] eq show ?thesis
    by (simp add: optProp_def)
qed

section \<open>Properties of the validator\<close>

lemma map_of_setProp: "map_of (setProp k v fs) k' = (if k' = k then Some v else map_of fs k')"
  by (induction fs) auto

lemma keys_setProp: "fst ` set (setProp k v fs) = insert k (fst ` set fs)"
  by (induction fs) auto

lemma keys_setPath: "fst ` set (setPath (k # ks) v fs) = insert k (fst ` set fs)"
  by (cases ks) (simp_all add: keys_setProp)

text \<open>The keys of the error map of \<^verbatim>\<open>requireFields\<close> are first keys of required paths.\<close>

lemma keys_fold_require:
  "fst ` set (fold (\<lambda>path errors.
             if isBlank (getPath obj path) then setPath path requiredError errors else errors)
       paths acc) \<subseteq> fst ` set acc \<union> {k. \<exists>ks. k # ks \<in> set paths}"
proof (induction paths arbitrary: acc)
  case Nil
  then show ?case by simp
next
  case (Cons p paths)
  show ?case
  proof (cases p)
    case Nil
    with Cons.IH [of acc] show ?thesis by auto
  next
    case (Cons k ks)
    with Cons.IH [of acc] Cons.IH [of "setPath (k # ks) requiredError acc"]
    show ?thesis by (auto simp: keys_setPath)
  qed
qed

lemma keys_requireFields:
  "fst ` set (requireFields obj paths) \<subseteq> {k. \<exists>ks. k # ks \<in> set paths}"
  using keys_fold_require [of obj paths "[]"] by (simp add: requireFields_def)

lemma mapE_total: "\<exists>ys. mapE (\<lambda>x. Inr (f x)) xs = Inr ys"
  by (induction xs) (auto simp: andThen_def)

text \<open>
  C1, as stated, fails: an invoice whose payee is an invite leaves the validator through
  the invite branch, which never looks at \<^verbatim>\<open>payeeLocation\<close>. Here the country is
  \<^verbatim>\<open>null\<close> and the error map is empty.
\<close>

theorem validate_invoice_country_counterexample:
  "get (JObj [(''type'', INVOICE), (''description'', JStr ''Talk''),
              (''payee'', JObj [(''isInvite'', JBool True), (''name'', JStr ''Ann''),
                                (''email'', JStr ''ann@example.org'')]),
              (''payeeLocation'', JObj [(''address'', JStr []), (''country'', JNull)]),
              (''items'', JArr [])]) ''type'' = INVOICE
   \<and> isBlank (getPath
        (JObj [(''type'', INVOICE), (''description'', JStr ''Talk''),
               (''payee'', JObj [(''isInvite'', JBool True), (''name'', JStr ''Ann''),
                                 (''email'', JStr ''ann@example.org'')]),
               (''payeeLocation'', JObj [(''address'', JStr []), (''country'', JNull)]),
               (''items'', JArr [])]) [''payeeLocation'', ''country''])
   \<and> validate (\<lambda>v. Inr False) (\<lambda>expense item. JObj []) (\<lambda>payoutMethod. JObj [])
        (JObj [(''type'', INVOICE), (''description'', JStr ''Talk''),
               (''payee'', JObj [(''isInvite'', JBool True), (''name'', JStr ''Ann''),
                                 (''email'', JStr ''ann@example.org'')]),
               (''payeeLocation'', JObj [(''address'', JStr []), (''country'', JNull)]),
               (''items'', JArr [])]) = Inr (JObj [])
   \<and> \<not> hasError (JObj []) [''payeeLocation'', ''country'']"
  by (simp add: validate_def optProp_def readProp_def andThen_def requireFields_def
        hasError_def INVOICE_def)

text \<open>
  C1, amended. For every expense record with type \<^verbatim>\<open>INVOICE\<close> whose payee is not an
  invite (\<^verbatim>\<open>payee?.isInvite\<close> is not truthy) and whose \<^verbatim>\<open>payeeLocation.country\<close>
  is empty or absent, every error map the validator returns has an error under
  \<^verbatim>\<open>payeeLocation.country\<close>; and the validator does return one when \<^verbatim>\<open>items\<close> is
  an array.
\<close>

theorem validate_invoice_country:
  assumes "\<not> truthy (optProp (get expense ''payee'') ''isInvite'')"
    and "get expense ''type'' = INVOICE"
    and "isBlank (getPath expense [''payeeLocation'', ''country''])"
  shows "(\<forall>errs. validate toNumberPositive validateExpenseItem validatePayoutMethod expense = Inr errs
            \<longrightarrow> hasError errs [''payeeLocation'', ''country''])
       \<and> ((\<exists>xs. get expense ''items'' = JArr xs)
            \<longrightarrow> (\<exists>errs. validate toNumberPositive validateExpenseItem validatePayoutMethod expense = Inr errs))"
proof -
  have a: "hasError (JObj (assign errs2
             (requireFields expense
                [[''payeeLocation'', ''country''], [''payeeLocation'', ''address'']])))
             [''payeeLocation'', ''country'']" for errs2
    using assms(3)
    by (simp add: requireFields_def assign_def hasError_def map_of_setProp requiredError_def)
  have "hasError errs [''payeeLocation'', ''country'']"
    if "validate toNumberPositive validateExpenseItem validatePayoutMethod expense = Inr errs" for errs
    using that assms(1,2) a
    by (auto simp: validate_def andThen_def Let_def split: sum.splits if_splits)
  moreover have "\<exists>errs. validate toNumberPositive validateExpenseItem validatePayoutMethod expense = Inr errs"
    if "get expense ''items'' = JArr xs" for xs
  proof -
    from mapE_total [of "validateExpenseItem expense" xs] obtain ys
      where m: "mapE (\<lambda>item. Inr (validateExpenseItem expense item)) xs = Inr ys" by blast
    from that have "\<not> nullish expense"
      by (cases expense) auto
    with m that assms(1,2) show ?thesis
      by (simp add: validate_def andThen_def Let_def)
  qed
  ultimately show ?thesis by blast
qed

theorem validate_invoice_country_witness:
  "isBlank (getPath
       (JObj [(''type'', INVOICE), (''description'', JStr ''Talk''),
              (''payee'', JObj [(''id'', JStr ''p1'')]),
              (''payoutMethod'', JObj [(''id'', JStr ''pm1'')]), (''currency'', JStr ''USD''),
              (''payeeLocation'', JObj [(''address'', JStr ''1 Main St''), (''country'', JNull)]),
              (''items'', JArr [JObj [(''description'', JStr ''x''), (''amount'', JNum 5)]])])
       [''payeeLocation'', ''country''])
   \<and> validate (\<lambda>v. Inr False) (\<lambda>expense item. JObj []) (\<lambda>payoutMethod. JObj [])
       (JObj [(''type'', INVOICE), (''description'', JStr ''Talk''),
              (''payee'', JObj [(''id'', JStr ''p1'')]),
              (''payoutMethod'', JObj [(''id'', JStr ''pm1'')]), (''currency'', JStr ''USD''),
              (''payeeLocation'', JObj [(''address'', JStr ''1 Main St''), (''country'', JNull)]),
              (''items'', JArr [JObj [(''description'', JStr ''x''), (''amount'', JNum 5)]])])
       = Inr (JObj [(''payeeLocation'', JObj [(''country'', requiredError)])])
   \<and> hasError (JObj [(''payeeLocation'', JObj [(''country'', requiredError)])])
       [''payeeLocation'', ''country'']"
proof -
  let ?e = "JObj [(''type'', INVOICE), (''description'', JStr ''Talk''),
              (''payee'', JObj [(''id'', JStr ''p1'')]),
              (''payoutMethod'', JObj [(''id'', JStr ''pm1'')]), (''currency'', JStr ''USD''),
              (''payeeLocation'', JObj [(''address'', JStr ''1 Main St''), (''country'', JNull)]),
              (''items'', JArr [JObj [(''description'', JStr ''x''), (''amount'', JNum 5)]])]"
  have v: "validate (\<lambda>v. Inr False) (\<lambda>expense item. JObj []) (\<lambda>payoutMethod. JObj []) ?e
             = Inr (JObj [(''payeeLocation'', JObj [(''country'', requiredError)])])"
    by (simp add: validate_def optProp_def andThen_def requireFields_def assign_def INVOICE_def)
  have h: "\<not> truthy (optProp (get ?e ''payee'') ''isInvite'')"
    "get ?e ''type'' = INVOICE" "isBlank (getPath ?e [''payeeLocation'', ''country''])"
    by (simp_all add: optProp_def)
  from validate_invoice_country
         [OF h, of "\<lambda>v. Inr False" "\<lambda>expense item. JObj []" "\<lambda>payoutMethod. JObj []"]
    h v
  show ?thesis by simp
qed

text \<open>
  C2, as stated, fails: an invited payee with a name, without \<^verbatim>\<open>id\<close> and without
  \<^verbatim>\<open>email\<close>, gets an error under \<^verbatim>\<open>payee.email\<close> and none under
  \<^verbatim>\<open>payee.name\<close>.
\<close>

theorem validate_invite_without_id_counterexample:
  "truthy (optProp (get (JObj [(''description'', JStr ''Talk''),
              (''payee'', JObj [(''isInvite'', JBool True), (''name'', JStr ''Ann'')]),
              (''items'', JArr [])]) ''payee'') ''isInvite'')
   \<and> get (get (JObj [(''description'', JStr ''Talk''),
              (''payee'', JObj [(''isInvite'', JBool True), (''name'', JStr ''Ann'')]),
              (''items'', JArr [])]) ''payee'') ''id'' = JUndefined
   \<and> get (get (JObj [(''description'', JStr ''Talk''),
              (''payee'', JObj [(''isInvite'', JBool True), (''name'', JStr ''Ann'')]),
              (''items'', JArr [])]) ''payee'') ''email'' = JUndefined
   \<and> validate (\<lambda>v. Inr False) (\<lambda>expense item. JObj []) (\<lambda>payoutMethod. JObj [])
        (JObj [(''description'', JStr ''Talk''),
               (''payee'', JObj [(''isInvite'', JBool True), (''name'', JStr ''Ann'')]),
               (''items'', JArr [])])
        = Inr (JObj [(''payee'', JObj [(''email'', requiredError)])])
   \<and> \<not> hasError (JObj [(''payee'', JObj [(''email'', requiredError)])]) [''payee'', ''name'']"
  by (simp add: validate_def optProp_def readProp_def andThen_def requireFields_def
        hasError_def)

text \<open>
  C2, amended. For every expense record whose payee is an invited payee
  (\<^verbatim>\<open>payee.isInvite\<close> truthy) lacking both \<^verbatim>\<open>payee.id\<close> and \<^verbatim>\<open>payee.email\<close>, the
  validator returns an error map with an error under \<^verbatim>\<open>payee.email\<close>, and with an
  error under \<^verbatim>\<open>payee.name\<close> exactly when \<^verbatim>\<open>payee.name\<close> is empty or absent too.
\<close>

theorem validate_invite_without_id:
  assumes "truthy (optProp (get expense ''payee'') ''isInvite'')"
    and "\<not> truthy (get (get expense ''payee'') ''id'')"
    and "isBlank (get (get expense ''payee'') ''email'')"
  shows "\<exists>errs. validate toNumberPositive validateExpenseItem validatePayoutMethod expense = Inr errs
           \<and> hasError errs [''payee'', ''email'']
           \<and> (hasError errs [''payee'', ''name'']
                \<longleftrightarrow> isBlank (get (get expense ''payee'') ''name''))"
proof -
  from assms(1) have nn: "\<not> nullish expense" "\<not> nullish (get expense ''payee'')"
    by (cases expense; auto simp: optProp_def)+
  from nn(2) have nb: "\<not> isBlank (get expense ''payee'')"
    using assms(1) by (cases "get expense ''payee''") (auto simp: optProp_def)
  show ?thesis
    using assms nn nb
    by (simp add: validate_def readProp_def andThen_def requireFields_def hasError_def
          map_of_setProp requiredError_def)
qed

theorem validate_invite_without_id_witness:
  "truthy (optProp (get (JObj [(''description'', JStr ''Talk''),
              (''payee'', JObj [(''isInvite'', JBool True), (''name'', JStr [])])]) ''payee'')
            ''isInvite'')
   \<and> isBlank (get (get (JObj [(''description'', JStr ''Talk''),
              (''payee'', JObj [(''isInvite'', JBool True), (''name'', JStr [])])]) ''payee'')
            ''name'')
   \<and> (\<exists>errs. validate (\<lambda>v. Inr False) (\<lambda>expense item. JObj []) (\<lambda>payoutMethod. JObj [])
          (JObj [(''description'', JStr ''Talk''),
                 (''payee'', JObj [(''isInvite'', JBool True), (''name'', JStr [])])]) = Inr errs
        \<and> hasError errs [''payee'', ''email''] \<and> hasError errs [''payee'', ''name''])"
  using validate_invite_without_id
          [of "JObj [(''description'', JStr ''Talk''),
                     (''payee'', JObj [(''isInvite'', JBool True), (''name'', JStr [])])]"
              "\<lambda>v. Inr False" "\<lambda>expense item. JObj []" "\<lambda>payoutMethod. JObj []"]
  by (simp add: optProp_def)

text \<open>
  C10. For every expense record whose payee has \<^verbatim>\<open>isInvite\<close> truthy, the validator
  returns from the invite branch: it returns an error map, and the keys of that map are
  among \<^verbatim>\<open>description\<close> and \<^verbatim>\<open>payee\<close>. It has no key \<^verbatim>\<open>payoutMethod\<close>,
  \<^verbatim>\<open>currency\<close>, \<^verbatim>\<open>items\<close> or \<^verbatim>\<open>payeeLocation\<close>, whatever these fields of the
  record hold.
\<close>

theorem validate_invite_keys:
  assumes "truthy (optProp (get expense ''payee'') ''isInvite'')"
  shows "\<exists>errs. validate toNumberPositive validateExpenseItem validatePayoutMethod expense = Inr (JObj errs)
           \<and> fst ` set errs \<subseteq> {''description'', ''payee''}
           \<and> ''payoutMethod'' \<notin> fst ` set errs \<and> ''currency'' \<notin> fst ` set errs
           \<and> ''items'' \<notin> fst ` set errs \<and> ''payeeLocation'' \<notin> fst ` set errs"
proof -
  from assms have nn: "\<not> nullish expense" "\<not> nullish (get expense ''payee'')"
    by (cases expense; auto simp: optProp_def)+
  define errs where "errs =
     (if truthy (get (get expense ''payee'') ''id'')
      then requireFields expense [[''description''], [''payee''], [''payee'', ''id'']]
      else requireFields expense
             [[''description''], [''payee''], [''payee'', ''name''], [''payee'', ''email'']])"
  have v: "validate toNumberPositive validateExpenseItem validatePayoutMethod expense = Inr (JObj errs)"
    using assms nn by (simp add: validate_def readProp_def andThen_def errs_def)
  have k: "fst ` set errs \<subseteq> {''description'', ''payee''}"
    using keys_requireFields
            [of expense "[[''description''], [''payee''], [''payee'', ''id'']]"]
          keys_requireFields
            [of expense
                "[[''description''], [''payee''], [''payee'', ''name''], [''payee'', ''email'']]"]
    by (auto simp: errs_def)
  from k have "''payoutMethod'' \<notin> fst ` set errs" "''currency'' \<notin> fst ` set errs"
     "''items'' \<notin> fst ` set errs" "''payeeLocation'' \<notin> fst ` set errs"
    by auto
  with v k show ?thesis by blast
qed

theorem validate_invite_keys_witness:
  "truthy (optProp (get (JObj [(''type'', INVOICE),
              (''payee'', JObj [(''isInvite'', JBool True), (''email'', JStr ''ann@example.org'')])])
            ''payee'') ''isInvite'')
   \<and> (\<exists>errs. validate (\<lambda>v. Inr False) (\<lambda>expense item. JObj [(''amount'', requiredError)])
                 (\<lambda>payoutMethod. JObj [(''type'', requiredError)])
          (JObj [(''type'', INVOICE),
                 (''payee'', JObj [(''isInvite'', JBool True),
                                   (''email'', JStr ''ann@example.org'')])]) = Inr (JObj errs)
        \<and> ''payoutMethod'' \<notin> fst ` set errs \<and> ''currency'' \<notin> fst ` set errs
        \<and> ''items'' \<notin> fst ` set errs \<and> ''payeeLocation'' \<notin> fst ` set errs)"
  using validate_invite_keys
          [of "JObj [(''type'', INVOICE),
                     (''payee'', JObj [(''isInvite'', JBool True),
                                       (''email'', JStr ''ann@example.org'')])]"
              "\<lambda>v. Inr False" "\<lambda>expense item. JObj [(''amount'', requiredError)]"
              "\<lambda>payoutMethod. JObj [(''type'', requiredError)]"]
  by (auto simp: optProp_def)

section \<open>Properties of the step controller\<close>

text \<open>The effect on \<^verbatim>\<open>values.type\<close> runs last at mount and sets the step.\<close>

lemma stepAfterMount_PAYEE: "stepAfterMount flattenObjectDeep isDraft vals errs = PAYEE"
  by (simp add: stepAfterMount_def typeChanged_def Let_def)

text \<open>
  C7. The claim has the step start at \<^verbatim>\<open>EXPENSE\<close> when the step-one completeness
  predicate holds at mount, and line 202 computes that start. For a receipt with a
  description, a payee and a payout method and with no errors the predicate holds and
  the initial value of the step state is \<^verbatim>\<open>EXPENSE\<close>; the effect of lines 232 to
  237, whose comment reads "Return to Payee step if type is changed", runs after the
  first render as well and sets the step to \<^verbatim>\<open>PAYEE\<close>. The form is mounted on the
  payee step.
\<close>

theorem mount_resets_step:
  "truthy (stepOneCompleted (\<lambda>errors. errors)
      [(''type'', RECEIPT), (''description'', JStr ''Taxi''),
       (''items'', JArr [JObj [(''description'', JStr ''ride''), (''amount'', JNum 5)]]),
       (''payee'', JObj [(''id'', JStr ''1'')]), (''payoutMethod'', JObj [(''id'', JStr ''pm1'')]),
       (''currency'', JStr ''USD'')] [])
   \<and> initialStep (\<lambda>errors. errors)
      [(''type'', RECEIPT), (''description'', JStr ''Taxi''),
       (''items'', JArr [JObj [(''description'', JStr ''ride''), (''amount'', JNum 5)]]),
       (''payee'', JObj [(''id'', JStr ''1'')]), (''payoutMethod'', JObj [(''id'', JStr ''pm1'')]),
       (''currency'', JStr ''USD'')] [] = EXPENSE
   \<and> stepAfterMount (\<lambda>errors. errors) False
      [(''type'', RECEIPT), (''description'', JStr ''Taxi''),
       (''items'', JArr [JObj [(''description'', JStr ''ride''), (''amount'', JNum 5)]]),
       (''payee'', JObj [(''id'', JStr ''1'')]), (''payoutMethod'', JObj [(''id'', JStr ''pm1'')]),
       (''currency'', JStr ''USD'')] [] = PAYEE"
  by (simp add: stepAfterMount_PAYEE initialStep_def stepOneCompleted_def omitCurrencyError_def
        js_and_def RECEIPT_def)

text \<open>
  C8, as stated, fails: the payee step has two Next handlers. For a draft opened with no
  logged-in account the sign-up step is shown, and its Next sets the step to
  \<^verbatim>\<open>EXPENSE\<close> although \<^verbatim>\<open>validatePayoutMethod\<close> has errors for the payout method
  of the form; the error map of the form is not touched.
\<close>

theorem onNext_counterexample:
  "step \<lparr>formValues = [(''type'', INVOICE), (''payoutMethod'', JObj [(''type'', JStr ''PAYPAL'')])],
          formErrors = [], step = PAYEE\<rparr> = PAYEE
   \<and> \<not> isEmpty ((\<lambda>payoutMethod. if truthy (get payoutMethod ''data'') then JObj []
                                   else JObj [(''data'', requiredError)])
          (get (JObj (formValues
             \<lparr>formValues = [(''type'', INVOICE),
                             (''payoutMethod'', JObj [(''type'', JStr ''PAYPAL'')])],
              formErrors = [], step = PAYEE\<rparr>)) ''payoutMethod''))
   \<and> step (onNext
        (\<lambda>payoutMethod. if truthy (get payoutMethod ''data'') then JObj []
                         else JObj [(''data'', requiredError)])
        True False
        \<lparr>formValues = [(''type'', INVOICE), (''payoutMethod'', JObj [(''type'', JStr ''PAYPAL'')])],
         formErrors = [], step = PAYEE\<rparr>) = EXPENSE
   \<and> formErrors (onNext
        (\<lambda>payoutMethod. if truthy (get payoutMethod ''data'') then JObj []
                         else JObj [(''data'', requiredError)])
        True False
        \<lparr>formValues = [(''type'', INVOICE), (''payoutMethod'', JObj [(''type'', JStr ''PAYPAL'')])],
         formErrors = [], step = PAYEE\<rparr>) = []"
  by (simp add: onNext_def signUpStepOnNext_def)

text \<open>
  C8, amended. On Next in the payee step of a profile (\<^verbatim>\<open>ExpenseFormPayeeStep\<close>,
  shown unless the expense is a draft opened with no logged-in account), with the step
  at \<^verbatim>\<open>PAYEE\<close>: the step becomes \<^verbatim>\<open>EXPENSE\<close> if and only if
  \<^verbatim>\<open>validatePayoutMethod\<close> returns an empty error map for the current payout
  method; when the map is not empty the step stays \<^verbatim>\<open>PAYEE\<close> and the error map of
  the form becomes that map under the key \<^verbatim>\<open>payoutMethod\<close>. On Next in the sign-up
  step (a draft with no logged-in account) the step becomes \<^verbatim>\<open>EXPENSE\<close> and the
  error map stays as it is. Either handler is a total function of the state and leaves
  the values alone: nothing is thrown.
\<close>

theorem onNext_transition:
  assumes "step s = PAYEE"
  shows "(\<not> (isDraft \<and> \<not> loggedInAccount) \<longrightarrow>
            (step (onNext validatePayoutMethod isDraft loggedInAccount s) = EXPENSE
               \<longleftrightarrow> isEmpty (validatePayoutMethod (get (JObj (formValues s)) ''payoutMethod'')))
          \<and> (\<not> isEmpty (validatePayoutMethod (get (JObj (formValues s)) ''payoutMethod''))
               \<longrightarrow> step (onNext validatePayoutMethod isDraft loggedInAccount s) = PAYEE
                 \<and> formErrors (onNext validatePayoutMethod isDraft loggedInAccount s) =
                     [(''payoutMethod'',
                       validatePayoutMethod (get (JObj (formValues s)) ''payoutMethod''))]))
       \<and> (isDraft \<and> \<not> loggedInAccount \<longrightarrow>
            step (onNext validatePayoutMethod isDraft loggedInAccount s) = EXPENSE
          \<and> formErrors (onNext validatePayoutMethod isDraft loggedInAccount s) = formErrors s)
       \<and> formValues (onNext validatePayoutMethod isDraft loggedInAccount s) = formValues s"
  using assms by (simp add: onNext_def signUpStepOnNext_def payeeStepOnNext_def Let_def)

theorem onNext_transition_witness:
  "step \<lparr>formValues = [(''type'', INVOICE), (''payoutMethod'', JObj [(''type'', JStr ''PAYPAL'')])],
          formErrors = [], step = PAYEE\<rparr> = PAYEE
   \<and> \<not> isEmpty ((\<lambda>payoutMethod. if truthy (get payoutMethod ''data'') then JObj []
                                   else JObj [(''data'', requiredError)])
          (get (JObj (formValues
             \<lparr>formValues = [(''type'', INVOICE),
                             (''payoutMethod'', JObj [(''type'', JStr ''PAYPAL'')])],
              formErrors = [], step = PAYEE\<rparr>)) ''payoutMethod''))
   \<and> step (onNext
        (\<lambda>payoutMethod. if truthy (get payoutMethod ''data'') then JObj []
                         else JObj [(''data'', requiredError)])
        False True
        \<lparr>formValues = [(''type'', INVOICE), (''payoutMethod'', JObj [(''type'', JStr ''PAYPAL'')])],
         formErrors = [], step = PAYEE\<rparr>) = PAYEE
   \<and> formErrors (onNext
        (\<lambda>payoutMethod. if truthy (get payoutMethod ''data'') then JObj []
                         else JObj [(''data'', requiredError)])
        False True
        \<lparr>formValues = [(''type'', INVOICE), (''payoutMethod'', JObj [(''type'', JStr ''PAYPAL'')])],
         formErrors = [], step = PAYEE\<rparr>)
      = [(''payoutMethod'', JObj [(''data'', requiredError)])]
   \<and> step (onNext
        (\<lambda>payoutMethod. if truthy (get payoutMethod ''data'') then JObj []
                         else JObj [(''data'', requiredError)])
        False True
        \<lparr>formValues = [(''type'', INVOICE),
                        (''payoutMethod'', JObj [(''type'', JStr ''PAYPAL''),
                                                 (''data'', JObj [(''email'', JStr ''a@b.org'')])])],
         formErrors = [], step = PAYEE\<rparr>) = EXPENSE
   \<and> step (onNext
        (\<lambda>payoutMethod. if truthy (get payoutMethod ''data'') then JObj []
                         else JObj [(''data'', requiredError)])
        True False
        \<lparr>formValues = [(''type'', INVOICE), (''payoutMethod'', JObj [(''type'', JStr ''PAYPAL'')])],
         formErrors = [], step = PAYEE\<rparr>) = EXPENSE"
  using onNext_transition
          [of "\<lparr>formValues = [(''type'', INVOICE),
                                (''payoutMethod'', JObj [(''type'', JStr ''PAYPAL'')])],
                 formErrors = [], step = PAYEE\<rparr>" False True
              "\<lambda>payoutMethod. if truthy (get payoutMethod ''data'') then JObj []
                               else JObj [(''data'', requiredError)]"]
        onNext_transition
          [of "\<lparr>formValues = [(''type'', INVOICE),
                                (''payoutMethod'', JObj [(''type'', JStr ''PAYPAL''),
                                                 (''data'', JObj [(''email'', JStr ''a@b.org'')])])],
                 formErrors = [], step = PAYEE\<rparr>" False True
              "\<lambda>payoutMethod. if truthy (get payoutMethod ''data'') then JObj []
                               else JObj [(''data'', requiredError)]"]
        onNext_transition
          [of "\<lparr>formValues = [(''type'', INVOICE),
                                (''payoutMethod'', JObj [(''type'', JStr ''PAYPAL'')])],
                 formErrors = [], step = PAYEE\<rparr>" True False
              "\<lambda>payoutMethod. if truthy (get payoutMethod ''data'') then JObj []
                               else JObj [(''data'', requiredError)]"]
  by simp

text \<open>
  C4, as stated, fails for a draft: the type changes, the step is set to \<^verbatim>\<open>PAYEE\<close>,
  and the invited payee stays in the values.
\<close>

theorem typeChanged_counterexample:
  "truthy (isInvite (formValues
      \<lparr>formValues = [(''type'', INVOICE),
                      (''payee'', JObj [(''isInvite'', JBool True), (''name'', JStr ''Ann'')])],
       formErrors = [], step = EXPENSE\<rparr>))
   \<and> get (JObj (formValues (typeChanged True
        \<lparr>formValues = [(''type'', INVOICE),
                        (''payee'', JObj [(''isInvite'', JBool True), (''name'', JStr ''Ann'')])],
         formErrors = [], step = EXPENSE\<rparr>))) ''payee''
      = JObj [(''isInvite'', JBool True), (''name'', JStr ''Ann'')]
   \<and> get (JObj (formValues (typeChanged True
        \<lparr>formValues = [(''type'', INVOICE),
                        (''payee'', JObj [(''isInvite'', JBool True), (''name'', JStr ''Ann'')])],
         formErrors = [], step = EXPENSE\<rparr>))) ''payee'' \<noteq> JNull"
  by (simp add: typeChanged_def isInvite_def optProp_def)

text \<open>
  C4, amended. Whenever the expense type field changes, the step state is set to
  \<^verbatim>\<open>PAYEE\<close>, for every form state and for drafts too. A payee with \<^verbatim>\<open>isInvite\<close>
  truthy is cleared (set to \<^verbatim>\<open>null\<close>) when the expense is not a draft; for a draft,
  and for a payee that is not an invite, the values stay as they are.
\<close>

theorem typeChanged_effect:
  "step (typeChanged isDraft s) = PAYEE
   \<and> formErrors (typeChanged isDraft s) = formErrors s
   \<and> (\<not> isDraft \<and> truthy (isInvite (formValues s))
        \<longrightarrow> get (JObj (formValues (typeChanged isDraft s))) ''payee'' = JNull)
   \<and> (isDraft \<or> \<not> truthy (isInvite (formValues s))
        \<longrightarrow> formValues (typeChanged isDraft s) = formValues s)"
  by (simp add: typeChanged_def Let_def map_of_setProp)

theorem typeChanged_effect_witness:
  "truthy (isInvite (formValues
      \<lparr>formValues = [(''type'', INVOICE),
                      (''payee'', JObj [(''isInvite'', JBool True), (''name'', JStr ''Ann'')])],
       formErrors = [], step = EXPENSE\<rparr>))
   \<and> step (typeChanged False
        \<lparr>formValues = [(''type'', INVOICE),
                        (''payee'', JObj [(''isInvite'', JBool True), (''name'', JStr ''Ann'')])],
         formErrors = [], step = EXPENSE\<rparr>) = PAYEE
   \<and> get (JObj (formValues (typeChanged False
        \<lparr>formValues = [(''type'', INVOICE),
                        (''payee'', JObj [(''isInvite'', JBool True), (''name'', JStr ''Ann'')])],
         formErrors = [], step = EXPENSE\<rparr>))) ''payee'' = JNull
   \<and> formValues (typeChanged True
        \<lparr>formValues = [(''type'', INVOICE),
                        (''payee'', JObj [(''isInvite'', JBool True), (''name'', JStr ''Ann'')])],
         formErrors = [], step = EXPENSE\<rparr>)
      = [(''type'', INVOICE),
         (''payee'', JObj [(''isInvite'', JBool True), (''name'', JStr ''Ann'')])]"
  using typeChanged_effect
          [of False "\<lparr>formValues = [(''type'', INVOICE),
                      (''payee'', JObj [(''isInvite'', JBool True), (''name'', JStr ''Ann'')])],
                    formErrors = [], step = EXPENSE\<rparr>"]
        typeChanged_effect
          [of True "\<lparr>formValues = [(''type'', INVOICE),
                      (''payee'', JObj [(''isInvite'', JBool True), (''name'', JStr ''Ann'')])],
                    formErrors = [], step = EXPENSE\<rparr>"]
  by (simp add: isInvite_def optProp_def)

text \<open>
  C6. When the items list is empty and the payee is not an invite, the step-two
  completion predicate is falsy and the submit button is disabled, whatever the rest of
  the form state is. And the button is enabled only when the payee is an invite or the
  test \<^verbatim>\<open>values.items.length > 0\<close> of the code holds: for \<^verbatim>\<open>items\<close> an array,
  only when the array is not empty.
\<close>

theorem submit_needs_items:
  "(\<not> truthy (isInvite vals) \<and> get (JObj vals) ''items'' = JArr []
      \<longrightarrow> (\<exists>v. stepTwoCompleted toNumberPositive flattenObjectDeep vals errs = Inr v
               \<and> \<not> truthy v)
        \<and> submitDisabled toNumberPositive flattenObjectDeep isValid vals errs = Inr True)
   \<and> (submitDisabled toNumberPositive flattenObjectDeep isValid vals errs = Inr False
      \<longrightarrow> truthy (isInvite vals)
        \<or> lengthPositive toNumberPositive (get (JObj vals) ''items'') = Inr True)
   \<and> (submitDisabled toNumberPositive flattenObjectDeep isValid vals errs = Inr False
        \<and> get (JObj vals) ''items'' = JArr xs
      \<longrightarrow> truthy (isInvite vals) \<or> xs \<noteq> [])"
proof -
  have first: "(\<exists>v. stepTwoCompleted toNumberPositive flattenObjectDeep vals errs = Inr v
                  \<and> \<not> truthy v)
        \<and> submitDisabled toNumberPositive flattenObjectDeep isValid vals errs = Inr True"
    if "\<not> truthy (isInvite vals) \<and> get (JObj vals) ''items'' = JArr []"
    using that by (auto simp: submitDisabled_def stepTwoCompleted_def Let_def andThen_def)
  have second: "truthy (isInvite vals)
        \<or> lengthPositive toNumberPositive (get (JObj vals) ''items'') = Inr True"
    if d: "submitDisabled toNumberPositive flattenObjectDeep isValid vals errs = Inr False"
  proof (cases "truthy (isInvite vals)")
    case True
    then show ?thesis by simp
  next
    case False
    with d show ?thesis
      by (cases "truthy (js_and (stepOneCompleted flattenObjectDeep vals errs)
                           (hasBaseFormFieldsCompleted vals))")
         (auto simp: submitDisabled_def stepTwoCompleted_def Let_def andThen_def
               split: sum.splits)
  qed
  have third: "truthy (isInvite vals) \<or> xs \<noteq> []"
    if "submitDisabled toNumberPositive flattenObjectDeep isValid vals errs = Inr False
        \<and> get (JObj vals) ''items'' = JArr xs"
    using that second by auto
  from first second third show ?thesis by blast
qed

theorem submit_needs_items_witness:
  "\<not> truthy (isInvite
        [(''type'', RECEIPT), (''description'', JStr ''Taxi''), (''items'', JArr []),
         (''payee'', JObj [(''id'', JStr ''1'')]), (''payoutMethod'', JObj [(''id'', JStr ''pm1'')]),
         (''currency'', JStr ''USD'')])
   \<and> get (JObj
        [(''type'', RECEIPT), (''description'', JStr ''Taxi''), (''items'', JArr []),
         (''payee'', JObj [(''id'', JStr ''1'')]), (''payoutMethod'', JObj [(''id'', JStr ''pm1'')]),
         (''currency'', JStr ''USD'')]) ''items'' = JArr []
   \<and> submitDisabled (\<lambda>v. Inr False) (\<lambda>errors. errors) True
        [(''type'', RECEIPT), (''description'', JStr ''Taxi''), (''items'', JArr []),
         (''payee'', JObj [(''id'', JStr ''1'')]), (''payoutMethod'', JObj [(''id'', JStr ''pm1'')]),
         (''currency'', JStr ''USD'')] [] = Inr True
   \<and> submitDisabled (\<lambda>v. Inr False) (\<lambda>errors. errors) True
        [(''type'', RECEIPT), (''description'', JStr ''Taxi''),
         (''items'', JArr [JObj [(''description'', JStr ''ride''), (''amount'', JNum 5)]]),
         (''payee'', JObj [(''id'', JStr ''1'')]), (''payoutMethod'', JObj [(''id'', JStr ''pm1'')]),
         (''currency'', JStr ''USD'')] [] = Inr False
   \<and> get (JObj
        [(''type'', RECEIPT), (''description'', JStr ''Taxi''),
         (''items'', JArr [JObj [(''description'', JStr ''ride''), (''amount'', JNum 5)]]),
         (''payee'', JObj [(''id'', JStr ''1'')]), (''payoutMethod'', JObj [(''id'', JStr ''pm1'')]),
         (''currency'', JStr ''USD'')]) ''items''
       = JArr [JObj [(''description'', JStr ''ride''), (''amount'', JNum 5)]]"
proof -
  let ?v0 = "[(''type'', RECEIPT), (''description'', JStr ''Taxi''), (''items'', JArr []),
         (''payee'', JObj [(''id'', JStr ''1'')]), (''payoutMethod'', JObj [(''id'', JStr ''pm1'')]),
         (''currency'', JStr ''USD'')]"
  let ?v1 = "[(''type'', RECEIPT), (''description'', JStr ''Taxi''),
         (''items'', JArr [JObj [(''description'', JStr ''ride''), (''amount'', JNum 5)]]),
         (''payee'', JObj [(''id'', JStr ''1'')]), (''payoutMethod'', JObj [(''id'', JStr ''pm1'')]),
         (''currency'', JStr ''USD'')]"
  have h: "\<not> truthy (isInvite ?v0) \<and> get (JObj ?v0) ''items'' = JArr []"
    by (simp add: isInvite_def optProp_def)
  have e: "submitDisabled (\<lambda>v. Inr False) (\<lambda>errors. errors) True ?v1 [] = Inr False"
    by (simp add: submitDisabled_def stepTwoCompleted_def stepOneCompleted_def
          hasBaseFormFieldsCompleted_def isInvite_def optProp_def omitCurrencyError_def
          js_and_def andThen_def RECEIPT_def)
  have i: "get (JObj ?v1) ''items''
             = JArr [JObj [(''description'', JStr ''ride''), (''amount'', JNum 5)]]"
    by simp
  from submit_needs_items [of ?v0 "\<lambda>v. Inr False" "\<lambda>errors. errors" "[]" True]
       submit_needs_items [of ?v1 "\<lambda>v. Inr False" "\<lambda>errors. errors" "[]" True
                              "[JObj [(''description'', JStr ''ride''), (''amount'', JNum 5)]]"]
       h e i
  show ?thesis by simp
qed

end
